theory Spec2Isabelle
  imports Main "HOL-Library.Word" "HOL-Library.Sublist"
begin

section \<open>JavaScript strings\<close>

text \<open>
  A JavaScript string is a sequence of UTF-16 code units. String equality (and the
  key comparison of \<^verbatim>\<open>Map\<close> and \<^verbatim>\<open>Set\<close>) compares code units, which is
  equality of lists here. Literals of the source are written with \<open>lit\<close>: every
  character of a literal below U+0100 is one code unit of the same number.
\<close>

type_synonym jsstr = "16 word list"

definition lit :: "string \<Rightarrow> jsstr" where
  "lit s = map (\<lambda>c. of_nat (of_char c)) s"

section \<open>The command aggregation service (CommandService)\<close>

subsection \<open>Data\<close>

text \<open>
  A slash command has a \<^verbatim>\<open>name\<close>; its other members (description, metadata,
  action) are declared in \<^verbatim>\<open>ui/commands/types.ts\<close> and are carried here as one
  value \<open>payload\<close>, which the service never inspects.
\<close>

record 'p SlashCommand =
  name :: jsstr
  payload :: 'p

text \<open>
  One element of the array that \<^verbatim>\<open>Promise.allSettled\<close> resolves to: a promise was
  fulfilled with a value or rejected with a reason. The array has the order of the
  promises, whichever settles first.
\<close>

datatype ('a, 'r) settled = Fulfilled 'a | Rejected 'r

text \<open>
  What the call \<^verbatim>\<open>loader.loadCommands()\<close> does for one loader: it returns a promise,
  which settles (an \<^verbatim>\<open>async\<close> method that throws returns a rejected promise), or the
  call itself throws a value before any promise exists.
\<close>

datatype ('a, 'r) loader_call = Returns "('a, 'r) settled" | Throws 'r

text \<open>
  A JavaScript \<^verbatim>\<open>Map\<close> iterates in the order in which its keys were first inserted;
  \<^verbatim>\<open>set\<close> on a present key replaces the value in place.
\<close>

type_synonym ('k, 'v) js_map = "('k \<times> 'v) list"

fun Map_set :: "'k \<Rightarrow> 'v \<Rightarrow> ('k, 'v) js_map \<Rightarrow> ('k, 'v) js_map" where
  "Map_set k v [] = [(k, v)]"
| "Map_set k v ((k', v') # m) =
     (if k' = k then (k, v) # m else (k', v') # Map_set k v m)"

definition Map_values :: "('k, 'v) js_map \<Rightarrow> 'v list" where
  "Map_values m = map snd m"

text \<open>
  Arrays are objects: \<^verbatim>\<open>getCommands()\<close> hands out the very array the service holds,
  so arrays live in a store and are named by their address. \<open>frozen\<close> is the effect of
  \<^verbatim>\<open>Object.freeze\<close>. The store also collects what was passed to \<^verbatim>\<open>console.debug\<close>.
\<close>

record 'a js_array =
  elems :: "'a list"
  frozen :: bool

record ('a, 'r) runtime =
  cells :: "nat \<Rightarrow> 'a js_array option"
  fresh :: nat
  debug_out :: "'r list"

datatype js_error = TypeError | NoSuchObject

definition alloc :: "'a js_array \<Rightarrow> ('a, 'r) runtime \<Rightarrow> nat \<times> ('a, 'r) runtime" where
  "alloc arr rt = (fresh rt, rt\<lparr>cells := (cells rt)(fresh rt \<mapsto> arr), fresh := Suc (fresh rt)\<rparr>)"

definition Object_freeze :: "nat \<Rightarrow> ('a, 'r) runtime \<Rightarrow> ('a, 'r) runtime" where
  "Object_freeze a rt =
     (case cells rt a of
        None \<Rightarrow> rt
      | Some arr \<Rightarrow> rt\<lparr>cells := (cells rt)(a \<mapsto> arr\<lparr>frozen := True\<rparr>)\<rparr>)"

text \<open>
  \<^verbatim>\<open>Array.prototype.push\<close>: on a frozen array it throws a \<^verbatim>\<open>TypeError\<close> and changes
  nothing; otherwise it appends and returns the new length. (\<open>NoSuchObject\<close> is the
  model's answer for an address that was never allocated; no reference of the program
  is such an address.)
\<close>

definition Array_push ::
  "nat \<Rightarrow> 'a \<Rightarrow> ('a, 'r) runtime \<Rightarrow> (js_error + nat) \<times> ('a, 'r) runtime" where
  "Array_push a v rt =
     (case cells rt a of
        None \<Rightarrow> (Inl NoSuchObject, rt)
      | Some arr \<Rightarrow>
          if frozen arr then (Inl TypeError, rt)
          else (Inr (Suc (length (elems arr))),
                rt\<lparr>cells := (cells rt)(a \<mapsto> arr\<lparr>elems := elems arr @ [v]\<rparr>)\<rparr>))"

subsection \<open>The service\<close>

text \<open>
  The private field \<^verbatim>\<open>commands\<close> is a reference to an array. The field initialiser
  \<^verbatim>\<open>= []\<close> allocates an ordinary array: the \<^verbatim>\<open>readonly\<close> of its type is erased at
  run time.
\<close>

record CommandService =
  commands :: nat

definition new_CommandService ::
  "('a, 'r) runtime \<Rightarrow> CommandService \<times> ('a, 'r) runtime" where
  "new_CommandService rt =
     (case alloc \<lparr>elems = [], frozen = False\<rparr> rt of
        (a, rt') \<Rightarrow> (\<lparr>commands = a\<rparr>, rt'))"

text \<open>
  The first loop of \<^verbatim>\<open>loadCommands\<close>: fulfilled values are appended to
  \<^verbatim>\<open>allCommands\<close>, rejection reasons go to \<^verbatim>\<open>console.debug\<close>.
\<close>

fun collect ::
  "('a list, 'r) settled list \<Rightarrow> 'a list \<times> 'r list \<Rightarrow> 'a list \<times> 'r list" where
  "collect [] acc = acc"
| "collect (Fulfilled v # rs) (allCommands, dbg) = collect rs (allCommands @ v, dbg)"
| "collect (Rejected r # rs) (allCommands, dbg) = collect rs (allCommands, dbg @ [r])"

text \<open>The second loop: \<^verbatim>\<open>commandMap.set(cmd.name, cmd)\<close> for every command in order.\<close>

fun fill_map ::
  "'p SlashCommand list \<Rightarrow> (jsstr, 'p SlashCommand) js_map \<Rightarrow> (jsstr, 'p SlashCommand) js_map" where
  "fill_map [] commandMap = commandMap"
| "fill_map (cmd # cmds) commandMap = fill_map cmds (Map_set (name cmd) cmd commandMap)"

text \<open>
  The first statement of \<^verbatim>\<open>loadCommands\<close> (lines 194 to 196):
  \<^verbatim>\<open>this.loaders.map((loader) => loader.loadCommands())\<close> calls the loaders in
  registration order and builds the array of promises, which \<^verbatim>\<open>Promise.allSettled\<close>
  then awaits. A call that throws ends the \<^verbatim>\<open>map\<close>: no array of promises comes
  about and the value is thrown on (\<open>Inl\<close>). Otherwise the settled results are returned
  in the order of the loaders.
\<close>

fun settle_loaders :: "('a, 'r) loader_call list \<Rightarrow> 'r + ('a, 'r) settled list" where
  "settle_loaders [] = Inr []"
| "settle_loaders (Throws e # loaders) = Inl e"
| "settle_loaders (Returns r # loaders) =
     (case settle_loaders loaders of Inl e \<Rightarrow> Inl e | Inr results \<Rightarrow> Inr (r # results))"

text \<open>
  The rest of the method (lines 198 to 215), from the value of the local
  \<^verbatim>\<open>results\<close> on: the two loops, then \<^verbatim>\<open>Array.from\<close> allocates a new array, which
  is frozen and stored in the field.
\<close>

definition loadCommands_settled ::
  "('p SlashCommand list, 'r) settled list \<Rightarrow> CommandService \<Rightarrow> ('p SlashCommand, 'r) runtime
     \<Rightarrow> CommandService \<times> ('p SlashCommand, 'r) runtime" where
  "loadCommands_settled results svc rt =
     (case collect results ([], debug_out rt) of
        (allCommands, dbg) \<Rightarrow>
          (let commandMap = fill_map allCommands [];
               rt1 = rt\<lparr>debug_out := dbg\<rparr>
           in case alloc \<lparr>elems = Map_values commandMap, frozen = False\<rparr> rt1 of
                (a, rt2) \<Rightarrow> (svc\<lparr>commands := a\<rparr>, Object_freeze a rt2)))"

text \<open>
  \<open>loadCommands loaders svc rt\<close> is one call of the method, \<open>loaders\<close> saying what
  each registered loader does in this call, in registration order. The method is
  \<^verbatim>\<open>async\<close>: a value thrown in its body rejects the promise it returns (\<open>Inl\<close>), and
  then the field and the store are as before; otherwise the promise is fulfilled
  (\<open>Inr ()\<close>) after the new array was published.
\<close>

definition loadCommands ::
  "('p SlashCommand list, 'r) loader_call list \<Rightarrow> CommandService
     \<Rightarrow> ('p SlashCommand, 'r) runtime
     \<Rightarrow> ('r + unit) \<times> (CommandService \<times> ('p SlashCommand, 'r) runtime)" where
  "loadCommands loaders svc rt =
     (case settle_loaders loaders of
        Inl e \<Rightarrow> (Inl e, (svc, rt))
      | Inr results \<Rightarrow> (Inr (), loadCommands_settled results svc rt))"

definition getCommands :: "CommandService \<Rightarrow> nat" where
  "getCommands svc = commands svc"

text \<open>The contents of the service's catalog: the elements of the array its field refers to.\<close>

definition catalog :: "CommandService \<times> ('a, 'r) runtime \<Rightarrow> 'a list" where
  "catalog s = (case cells (snd s) (commands (fst s)) of None \<Rightarrow> [] | Some arr \<Rightarrow> elems arr)"

text \<open>
  A consumer pushes onto the array it got from \<^verbatim>\<open>getCommands()\<close>: the outcome of the
  push, and the service with the store afterwards.
\<close>

definition push_on_getCommands ::
  "'a \<Rightarrow> CommandService \<times> ('a, 'r) runtime \<Rightarrow> (js_error + nat) \<times> (CommandService \<times> ('a, 'r) runtime)" where
  "push_on_getCommands v s =
     (case Array_push (getCommands (fst s)) v (snd s) of
        (res, rt') \<Rightarrow> (res, (fst s, rt')))"

subsection \<open>The merge policy in the words of the specification\<close>

text \<open>
  The specification: flatten the successful loaders' lists in registration order; the
  catalog has one entry per name, names in the order in which they were first seen,
  each with the content that was seen last under that name. (\<open>last_named k\<close> is
  applied to names \<open>k\<close> that occur in the list only.)
\<close>

definition fulfilled_outputs :: "('a list, 'r) settled list \<Rightarrow> 'a list" where
  "fulfilled_outputs results =
     concat (map (\<lambda>r. case r of Fulfilled v \<Rightarrow> v | Rejected _ \<Rightarrow> []) results)"

fun first_seen :: "'k list \<Rightarrow> 'k list" where
  "first_seen [] = []"
| "first_seen (k # ks) = k # removeAll k (first_seen ks)"

definition last_named :: "jsstr \<Rightarrow> 'p SlashCommand list \<Rightarrow> 'p SlashCommand" where
  "last_named k cmds = last (filter (\<lambda>c. name c = k) cmds)"

definition spec_catalog :: "'p SlashCommand list \<Rightarrow> 'p SlashCommand list" where
  "spec_catalog cmds = map (\<lambda>k. last_named k cmds) (first_seen (map name cmds))"

definition is_rejected :: "('a, 'r) settled \<Rightarrow> bool" where
  "is_rejected r = (case r of Fulfilled _ \<Rightarrow> False | Rejected _ \<Rightarrow> True)"


section \<open>The prompt runner (generateGemini)\<close>

subsection \<open>String operations of the runner\<close>

text \<open>
  \<^verbatim>\<open>String.prototype.trim\<close> removes, at both ends, the code units that ECMAScript
  calls WhiteSpace or LineTerminator.
\<close>

definition is_js_space :: "16 word \<Rightarrow> bool" where
  "is_js_space c =
     (c = 0x0009 \<or> c = 0x000A \<or> c = 0x000B \<or> c = 0x000C \<or> c = 0x000D \<or> c = 0x0020
      \<or> c = 0x00A0 \<or> c = 0x1680 \<or> (0x2000 \<le> c \<and> c \<le> 0x200A)
      \<or> c = 0x2028 \<or> c = 0x2029 \<or> c = 0x202F \<or> c = 0x205F \<or> c = 0x3000 \<or> c = 0xFEFF)"

definition trim :: "jsstr \<Rightarrow> jsstr" where
  "trim s = rev (dropWhile is_js_space (rev (dropWhile is_js_space s)))"

text \<open>\<^verbatim>\<open>Array.prototype.join\<close> on an array of strings.\<close>

fun join :: "jsstr \<Rightarrow> jsstr list \<Rightarrow> jsstr" where
  "join sep [] = []"
| "join sep [x] = x"
| "join sep (x # y # ys) = x @ sep @ join sep (y # ys)"

text \<open>
  \<^verbatim>\<open>Array.from(new Set(xs))\<close>: a \<^verbatim>\<open>Set\<close> keeps each value once, in the order of
  first insertion.
\<close>

fun Set_add_all :: "'a list \<Rightarrow> 'a list \<Rightarrow> 'a list" where
  "Set_add_all [] s = s"
| "Set_add_all (x # xs) s = Set_add_all xs (if x \<in> set s then s else s @ [x])"

definition Array_from_Set :: "'a list \<Rightarrow> 'a list" where
  "Array_from_Set xs = Set_add_all xs []"

text \<open>Truthiness of a value of type \<^verbatim>\<open>string | undefined\<close> (or \<^verbatim>\<open>string | null\<close>).\<close>

definition truthy :: "jsstr option \<Rightarrow> bool" where
  "truthy v = (case v of None \<Rightarrow> False | Some s \<Rightarrow> s \<noteq> [])"

text \<open>\<^verbatim>\<open>v || d\<close> for such a value \<open>v\<close> and a string \<open>d\<close>.\<close>

definition js_or :: "jsstr option \<Rightarrow> jsstr \<Rightarrow> jsstr" where
  "js_or v d = (case v of None \<Rightarrow> d | Some s \<Rightarrow> if s \<noteq> [] then s else d)"

subsection \<open>Data of the runner\<close>

text \<open>
  What \<^verbatim>\<open>loadSettings\<close> returns: the merged settings, of which the runner reads
  \<^verbatim>\<open>model\<close> and \<^verbatim>\<open>excludeTools\<close> (both optional), and the list of errors, each with a
  file path and a message. The records hold the members that the runner reads; the type
  declarations themselves are not among the sources.
\<close>

record SettingsError =
  path :: jsstr
  message :: jsstr

record Settings =
  model :: "jsstr option"
  excludeTools :: "jsstr list option"

record LoadedSettings =
  merged :: Settings
  errors :: "SettingsError list"

text \<open>
  The argument record \<^verbatim>\<open>CliArgs\<close> with the members of the two object literals of the
  source (\<open>model_arg\<close>, \<open>prompt_arg\<close> and \<open>extensions_arg\<close> are its members
  \<^verbatim>\<open>model\<close>, \<^verbatim>\<open>prompt\<close> and \<^verbatim>\<open>extensions\<close>); \<open>None\<close> is \<^verbatim>\<open>undefined\<close>.
\<close>

record CliArgs =
  model_arg :: jsstr
  sandbox :: bool
  sandboxImage :: "jsstr option"
  debug :: bool
  prompt_arg :: jsstr
  promptInteractive :: jsstr
  allFiles :: bool
  all_files :: bool
  extensions_arg :: "jsstr list"
  allowedMcpServerNames :: "jsstr list"
  yolo :: bool
  showMemoryUsage :: bool
  show_memory_usage :: bool
  telemetry :: bool
  telemetryTarget :: "jsstr option"
  telemetryOtlpEndpoint :: "jsstr option"
  telemetryLogPrompts :: "bool option"
  checkpointing :: bool
  proxy :: "jsstr option"
  experimentalAcp :: bool
  listExtensions :: bool
  ideMode :: bool

text \<open>
  Modelled from the spec: the enumeration \<^verbatim>\<open>AuthType\<close> of the engine package, whose
  declaration is not among the sources. The spec has exactly one authentication method
  selected from the credential of the environment; the runner names it
  \<^verbatim>\<open>AuthType.USE_GEMINI\<close>. It is a value that counts as present where the runner
  tests \<^verbatim>\<open>!authType\<close>; \<^verbatim>\<open>undefined\<close> is \<open>None\<close> there.
\<close>

datatype AuthType = USE_GEMINI

text \<open>
  Every interaction of the runner with its collaborators is recorded, in program order,
  with the outcome where there is one. \<open>'x\<close> is the type of the values that
  collaborators throw (or reject with), \<open>'c\<close> the type of the engine's \<^verbatim>\<open>Config\<close>
  objects, \<open>'e\<close> the type of extension descriptors. (A fourth type, \<open>'m\<close>, is the
  engine's enumeration of approval modes.)
\<close>

datatype log_arg = Str jsstr | Auth AuthType

datatype ('x, 'c, 'e) event =
    LoadSettings
  | LoadExtensions
  | ReadEnv jsstr
  | ConsoleLog "log_arg list"
  | LoadCliConfig Settings "'e list" jsstr CliArgs "'x + 'c"
  | ValidateAuthMethod AuthType "jsstr option"
  | Initialize 'c "'x option"
  | RefreshAuth 'c AuthType "'x option"
  | RunNonInteractive 'c jsstr jsstr "'x option"

text \<open>
  What a call of the runner throws: an \<^verbatim>\<open>Error\<close> object that the runner itself
  creates with a message, or a value thrown by a collaborator that passes through
  unchanged.
\<close>

datatype 'x failure = Error jsstr | Thrown 'x

text \<open>
  The environment of one call. The collaborators are not part of the sources and are
  parameters: the values that \<^verbatim>\<open>loadSettings(cwd)\<close> and \<^verbatim>\<open>loadExtensions(cwd)\<close>
  return, the environment variable, \<^verbatim>\<open>process.stdin.isTTY\<close>, the imported constants
  (the settings path, the three tool names and \<^verbatim>\<open>ApprovalMode.YOLO\<close>),
  the string that \<^verbatim>\<open>Math.random().toString(16).slice(2)\<close> yields, and the
  behaviour of the engine. An asynchronous call returns \<open>None\<close> (or \<open>Inr\<close> a value)
  when its promise is fulfilled and the thrown value otherwise; its outcome may depend
  on everything that happened before, the first argument. \<open>String_of\<close> is the string
  conversion of a caught value in a template literal.
\<close>

record ('x, 'c, 'e, 'm) world =
  settings_loaded :: LoadedSettings
  extensions_loaded :: "'e list"
  env_GEMINI_API_KEY :: "jsstr option"
  stdin_isTTY :: bool
  USER_SETTINGS_PATH :: jsstr
  ShellTool_Name :: jsstr
  EditTool_Name :: jsstr
  WriteFileTool_Name :: jsstr
  random_id :: jsstr
  loadCliConfig ::
    "('x, 'c, 'e) event list \<Rightarrow> Settings \<Rightarrow> 'e list \<Rightarrow> jsstr \<Rightarrow> CliArgs \<Rightarrow> 'x + 'c"
  validateAuthMethod :: "AuthType \<Rightarrow> jsstr option"
  initialize :: "('x, 'c, 'e) event list \<Rightarrow> 'c \<Rightarrow> 'x option"
  refreshAuth :: "('x, 'c, 'e) event list \<Rightarrow> 'c \<Rightarrow> AuthType \<Rightarrow> 'x option"
  getApprovalMode :: "'c \<Rightarrow> 'm"
  ApprovalMode_YOLO :: 'm
  getSessionId :: "'c \<Rightarrow> jsstr"
  getQuestion :: "'c \<Rightarrow> jsstr option"
  runNonInteractive ::
    "('x, 'c, 'e) event list \<Rightarrow> 'c \<Rightarrow> jsstr \<Rightarrow> jsstr \<Rightarrow> 'x option"
  String_of :: "'x \<Rightarrow> jsstr"

subsection \<open>Sequencing\<close>

text \<open>
  A computation takes the events so far and returns a value or a failure, with the
  events extended. \<open>bind\<close> is sequencing: a failure ends the computation, as a
  \<^verbatim>\<open>throw\<close> (or a rejected \<^verbatim>\<open>await\<close>) does outside any \<^verbatim>\<open>try\<close>.
\<close>

type_synonym ('a, 'x, 'c, 'e) io =
  "('x, 'c, 'e) event list \<Rightarrow> ('x failure + 'a) \<times> ('x, 'c, 'e) event list"

definition ret :: "'a \<Rightarrow> ('a, 'x, 'c, 'e) io" where
  "ret a t = (Inr a, t)"

definition throw :: "'x failure \<Rightarrow> ('a, 'x, 'c, 'e) io" where
  "throw f t = (Inl f, t)"

definition bind :: "('a, 'x, 'c, 'e) io \<Rightarrow> ('a \<Rightarrow> ('b, 'x, 'c, 'e) io) \<Rightarrow> ('b, 'x, 'c, 'e) io" where
  "bind m k t = (case m t of (Inl f, t') \<Rightarrow> (Inl f, t') | (Inr a, t') \<Rightarrow> k a t')"

definition emit :: "('x, 'c, 'e) event \<Rightarrow> (unit, 'x, 'c, 'e) io" where
  "emit ev t = (Inr (), t @ [ev])"

text \<open>An awaited call without a result value: \<open>call\<close> gives its outcome, \<open>ev\<close> records it.\<close>

definition await ::
  "(('x, 'c, 'e) event list \<Rightarrow> 'x option) \<Rightarrow> ('x option \<Rightarrow> ('x, 'c, 'e) event)
     \<Rightarrow> (unit, 'x, 'c, 'e) io" where
  "await call ev t =
     (case call t of
        None \<Rightarrow> (Inr (), t @ [ev None])
      | Some x \<Rightarrow> (Inl (Thrown x), t @ [ev (Some x)]))"

definition await_loadCliConfig ::
  "('x, 'c, 'e, 'm) world \<Rightarrow> Settings \<Rightarrow> 'e list \<Rightarrow> jsstr \<Rightarrow> CliArgs \<Rightarrow> ('c, 'x, 'c, 'e) io" where
  "await_loadCliConfig w s exts sid args t =
     (case loadCliConfig w t s exts sid args of
        Inl x \<Rightarrow> (Inl (Thrown x), t @ [LoadCliConfig s exts sid args (Inl x)])
      | Inr c \<Rightarrow> (Inr c, t @ [LoadCliConfig s exts sid args (Inr c)]))"

subsection \<open>applyNonInteractiveRestrictions\<close>

text \<open>
  The dynamic \<^verbatim>\<open>import\<close> at the head of the function yields the engine module that
  the file has imported statically already; its constants are the fields of \<open>w\<close>.
\<close>

text \<open>
  The locals \<^verbatim>\<open>newExcludeTools\<close>, \<^verbatim>\<open>merged\<close> and \<^verbatim>\<open>defaultCliArgs\<close> of the
  restriction pass (lines 103 to 138). The spread \<^verbatim>\<open>...settings.merged\<close> with a new
  \<^verbatim>\<open>excludeTools\<close> is a record update.
\<close>

definition newExcludeTools :: "('x, 'c, 'e, 'm) world \<Rightarrow> LoadedSettings \<Rightarrow> jsstr list" where
  "newExcludeTools w settings =
     (case excludeTools (merged settings) of None \<Rightarrow> [] | Some ts \<Rightarrow> ts)
     @ [ShellTool_Name w, EditTool_Name w, WriteFileTool_Name w]"

definition restricted_merged :: "('x, 'c, 'e, 'm) world \<Rightarrow> LoadedSettings \<Rightarrow> Settings" where
  "restricted_merged w settings =
     (merged settings)\<lparr>excludeTools := Some (Array_from_Set (newExcludeTools w settings))\<rparr>"

definition restricted_defaultCliArgs :: "LoadedSettings \<Rightarrow> CliArgs" where
  "restricted_defaultCliArgs settings =
     \<lparr>model_arg = js_or (model (merged settings)) (lit ''gemini-1.5-flash''),
      sandbox = False,
      sandboxImage = None,
      debug = False,
      prompt_arg = [],
      promptInteractive = [],
      allFiles = False,
      all_files = False,
      extensions_arg = [],
      allowedMcpServerNames = [],
      yolo = True,
      showMemoryUsage = False,
      show_memory_usage = False,
      telemetry = False,
      telemetryTarget = None,
      telemetryOtlpEndpoint = None,
      telemetryLogPrompts = None,
      checkpointing = False,
      proxy = None,
      experimentalAcp = False,
      listExtensions = False,
      ideMode = False\<rparr>"

definition applyNonInteractiveRestrictions ::
  "('x, 'c, 'e, 'm) world \<Rightarrow> 'c \<Rightarrow> 'e list \<Rightarrow> LoadedSettings \<Rightarrow> ('c, 'x, 'c, 'e) io" where
  "applyNonInteractiveRestrictions w config extensions settings =
     (if getApprovalMode w config \<noteq> ApprovalMode_YOLO w then
        bind (await_loadCliConfig w (restricted_merged w settings) extensions
                (getSessionId w config) (restricted_defaultCliArgs settings))
          (\<lambda>restrictedConfig.
             bind (await (\<lambda>t. initialize w t restrictedConfig) (Initialize restrictedConfig))
               (\<lambda>_. ret restrictedConfig))
      else
        bind (await (\<lambda>t. initialize w t config) (Initialize config))
          (\<lambda>_. ret config))"

subsection \<open>generateGemini\<close>

text \<open>
  The messages of the source. Characters outside ASCII are written by their code
  units (U+00E9, U+00C9 and the surrogate pair of U+1F916).
\<close>

definition settings_error_line :: "SettingsError \<Rightarrow> jsstr" where
  "settings_error_line e = lit ''Erreur dans '' @ path e @ lit '': '' @ message e"

definition msg_no_auth :: "jsstr \<Rightarrow> jsstr" where
  "msg_no_auth settings_path =
     lit ''Aucune m'' @ [0x00E9] @ lit ''thode d'' @ [0x0027] @ lit ''auth. Configure ''
     @ settings_path @ lit '' ou d'' @ [0x00E9] @ lit ''finis GEMINI_API_KEY''"

definition msg_no_question :: jsstr where
  "msg_no_question = lit ''Aucune question fournie.''"

definition msg_interactive_prompt :: "jsstr \<Rightarrow> jsstr" where
  "msg_interactive_prompt question =
     [0xD83E, 0xDD16] @ lit '' [INTERACTIF] Prompt: '' @ question"

definition msg_interactive_done :: jsstr where
  "msg_interactive_done =
     lit ''R'' @ [0x00E9] @ lit ''ponse interactive g'' @ [0x00E9] @ lit ''n'' @ [0x00E9]
     @ lit ''r'' @ [0x00E9] @ lit ''e.''"

definition msg_non_interactive_done :: jsstr where
  "msg_non_interactive_done =
     lit ''R'' @ [0x00E9] @ lit ''ponse non-interactive g'' @ [0x00E9] @ lit ''n'' @ [0x00E9]
     @ lit ''r'' @ [0x00E9] @ lit ''e.''"

definition msg_generation_failed :: "jsstr \<Rightarrow> jsstr" where
  "msg_generation_failed detail =
     [0x00C9] @ lit ''chec de g'' @ [0x00E9] @ lit ''n'' @ [0x00E9] @ lit ''ration Gemini : ''
     @ detail"

text \<open>The local \<^verbatim>\<open>defaultCliArgs\<close> of \<^verbatim>\<open>generateGemini\<close> (lines 42 to 65).\<close>

definition defaultCliArgs :: "LoadedSettings \<Rightarrow> CliArgs" where
  "defaultCliArgs settings =
     \<lparr>model_arg = js_or (model (merged settings)) (lit ''gemini-2.5-pro''),
      sandbox = False,
      sandboxImage = None,
      debug = False,
      prompt_arg = [],
      promptInteractive = [],
      allFiles = False,
      all_files = False,
      extensions_arg = [],
      allowedMcpServerNames = [],
      yolo = True,
      showMemoryUsage = False,
      show_memory_usage = False,
      telemetry = False,
      telemetryTarget = None,
      telemetryOtlpEndpoint = None,
      telemetryLogPrompts = None,
      checkpointing = False,
      proxy = None,
      experimentalAcp = False,
      listExtensions = False,
      ideMode = False\<rparr>"

text \<open>
  The body of the branch \<^verbatim>\<open>if (interactive || process.stdin.isTTY)\<close> (lines 76 to 81
  of the source), for the configuration built before.
\<close>

definition generateGemini_interactive ::
  "('x, 'c, 'e, 'm) world \<Rightarrow> 'c \<Rightarrow> jsstr \<Rightarrow> (jsstr, 'x, 'c, 'e) io" where
  "generateGemini_interactive w config prompt =
     (case (if trim prompt \<noteq> [] then Some (trim prompt)
            else map_option trim (getQuestion w config)) of
        None \<Rightarrow> throw (Error msg_no_question)
      | Some question \<Rightarrow>
          if question = [] then throw (Error msg_no_question)
          else
            (let promptId = random_id w in
             bind (emit (ConsoleLog [Str (msg_interactive_prompt question)])) (\<lambda>_.
             bind (await (\<lambda>t. runNonInteractive w t config question promptId)
                     (RunNonInteractive config question promptId)) (\<lambda>_.
             ret msg_interactive_done))))"

text \<open>
  The rest of the function (lines 84 to 92): the restriction pass, then the run inside
  \<^verbatim>\<open>try\<close>, whose \<^verbatim>\<open>catch\<close> wraps what the run threw.
\<close>

definition generateGemini_non_interactive ::
  "('x, 'c, 'e, 'm) world \<Rightarrow> 'c \<Rightarrow> 'e list \<Rightarrow> LoadedSettings \<Rightarrow> jsstr \<Rightarrow> (jsstr, 'x, 'c, 'e) io" where
  "generateGemini_non_interactive w config extensions settings prompt =
     bind (applyNonInteractiveRestrictions w config extensions settings) (\<lambda>finalConfig.
       let promptId = random_id w in
       (\<lambda>t. case runNonInteractive w t finalConfig prompt promptId of
               None \<Rightarrow>
                 (Inr msg_non_interactive_done,
                  t @ [RunNonInteractive finalConfig prompt promptId None])
             | Some error \<Rightarrow>
                 (Inl (Error (msg_generation_failed (String_of w error))),
                  t @ [RunNonInteractive finalConfig prompt promptId (Some error)])))"

text \<open>
  \<open>generateGemini w prompt interactive\<close>, started on the empty list of events, is one
  call \<^verbatim>\<open>generateGemini(prompt, interactive)\<close> in the environment \<open>w\<close>.
\<close>

definition generateGemini ::
  "('x, 'c, 'e, 'm) world \<Rightarrow> jsstr \<Rightarrow> bool \<Rightarrow> (jsstr, 'x, 'c, 'e) io" where
  "generateGemini w prompt interactive =
     bind (emit LoadSettings) (\<lambda>_.
     bind (emit LoadExtensions) (\<lambda>_.
       let settings = settings_loaded w;
           extensions = extensions_loaded w
       in
       if errors settings \<noteq> [] then
         throw (Error (join [0x000A] (map settings_error_line (errors settings))))
       else
     bind (emit (ReadEnv (lit ''GEMINI_API_KEY''))) (\<lambda>_.
       case (if truthy (env_GEMINI_API_KEY w) then Some USE_GEMINI else None) of
         None \<Rightarrow> throw (Error (msg_no_auth (USER_SETTINGS_PATH w)))
       | Some authType \<Rightarrow>
     bind (emit (ConsoleLog [Str (lit ''authType:''), Auth authType])) (\<lambda>_.
     bind (await_loadCliConfig w (merged settings) extensions (lit ''session-id'')
             (defaultCliArgs settings))
       (\<lambda>config.
     bind (emit (ValidateAuthMethod authType (validateAuthMethod w authType))) (\<lambda>_.
       case (if truthy (validateAuthMethod w authType) then validateAuthMethod w authType
             else None) of
         Some err \<Rightarrow> throw (Error err)
       | None \<Rightarrow>
     bind (await (\<lambda>t. initialize w t config) (Initialize config)) (\<lambda>_.
     bind (await (\<lambda>t. refreshAuth w t config authType) (RefreshAuth config authType)) (\<lambda>_.
       if interactive \<or> stdin_isTTY w then generateGemini_interactive w config prompt
       else generateGemini_non_interactive w config extensions settings prompt))))))))"

text \<open>The \<^verbatim>\<open>model\<close> argument of every call of \<^verbatim>\<open>loadCliConfig\<close>, in order.\<close>

fun requested_models :: "('x, 'c, 'e) event list \<Rightarrow> jsstr list" where
  "requested_models [] = []"
| "requested_models (LoadCliConfig s exts sid args r # t) = model_arg args # requested_models t"
| "requested_models (ev # t) = requested_models t"


subsection \<open>Example values\<close>

text \<open>An empty store and a command with a number as payload, for concrete instances.\<close>

definition rt0 :: "(nat SlashCommand, nat) runtime" where
  "rt0 = \<lparr>cells = Map.empty, fresh = 0, debug_out = []\<rparr>"

definition cmd :: "string \<Rightarrow> nat \<Rightarrow> nat SlashCommand" where
  "cmd n v = \<lparr>name = lit n, payload = v\<rparr>"


text \<open>
  Environments for concrete instances: thrown values and \<^verbatim>\<open>Config\<close> objects are
  numbers, a new \<^verbatim>\<open>Config\<close> is numbered by the count of events at its creation.
  \<open>world_default\<close> has valid settings without a model, a credential, no terminal, an
  engine whose calls all succeed and configurations in the approval mode "default".
\<close>

definition world_default :: "(nat, nat, unit, jsstr) world" where
  "world_default =
     \<lparr>settings_loaded = \<lparr>merged = \<lparr>model = None, excludeTools = None\<rparr>, errors = []\<rparr>,
      extensions_loaded = [],
      env_GEMINI_API_KEY = Some (lit ''key''),
      stdin_isTTY = False,
      USER_SETTINGS_PATH = lit ''~/.gemini/settings.json'',
      ShellTool_Name = lit ''run_shell_command'',
      EditTool_Name = lit ''replace'',
      WriteFileTool_Name = lit ''write_file'',
      random_id = lit ''8f3a'',
      loadCliConfig = (\<lambda>t s exts sid args. Inr (length t)),
      validateAuthMethod = (\<lambda>a. None),
      initialize = (\<lambda>t c. None),
      refreshAuth = (\<lambda>t c a. None),
      getApprovalMode = (\<lambda>c. lit ''default''),
      ApprovalMode_YOLO = lit ''yolo'',
      getSessionId = (\<lambda>c. lit ''session-id''),
      getQuestion = (\<lambda>c. None),
      runNonInteractive = (\<lambda>t c p i. None),
      String_of = (\<lambda>x. lit ''Error: boom'')\<rparr>"

text \<open>The same with configurations in full auto-approval mode.\<close>

definition world_yolo :: "(nat, nat, unit, jsstr) world" where
  "world_yolo = world_default\<lparr>getApprovalMode := (\<lambda>c. lit ''yolo'')\<rparr>"

text \<open>The same as \<open>world_default\<close> with an engine whose run fails with the value 7.\<close>

definition world_failing_run :: "(nat, nat, unit, jsstr) world" where
  "world_failing_run = world_default\<lparr>runNonInteractive := (\<lambda>t c p i. Some 7)\<rparr>"

text \<open>Two malformed settings files.\<close>

definition world_bad_settings :: "(nat, nat, unit, jsstr) world" where
  "world_bad_settings =
     world_default\<lparr>settings_loaded :=
       \<lparr>merged = \<lparr>model = None, excludeTools = None\<rparr>,
        errors = [\<lparr>path = lit ''a.json'', message = lit ''bad''\<rparr>,
                  \<lparr>path = lit ''b.json'', message = lit ''worse''\<rparr>]\<rparr>\<rparr>"

text \<open>No credential in the environment.\<close>

definition world_no_key :: "(nat, nat, unit, jsstr) world" where
  "world_no_key = world_default\<lparr>env_GEMINI_API_KEY := None\<rparr>"


section \<open>Properties of the command aggregation service\<close>

subsection \<open>Facts about the map and the two loops\<close>



lemma Map_set_keys:
  "map fst (Map_set k v m) = (if k \<in> set (map fst m) then map fst m else map fst m @ [k])"
  by (induction k v m rule: Map_set.induct) simp_all

lemma Map_set_lookup: "map_of (Map_set k v m) = (map_of m)(k \<mapsto> v)"
  by (induction m) (auto simp: fun_eq_iff)

lemma first_seen_set [simp]: "set (first_seen ks) = set ks"
  by (induction ks) auto

lemma first_seen_distinct [simp]: "distinct (first_seen ks)"
  by (induction ks) (auto simp: distinct_removeAll)

lemma removeAll_filter: "removeAll x (filter P l) = filter (\<lambda>y. P y \<and> y \<noteq> x) l"
  by (induction l) auto

lemma filter_removeAll: "filter P (removeAll x l) = filter (\<lambda>y. P y \<and> y \<noteq> x) l"
  by (induction l) auto

lemma first_seen_append:
  "first_seen (xs @ ys) = first_seen xs @ filter (\<lambda>y. y \<notin> set xs) (first_seen ys)"
proof (induction xs)
  case Nil
  show ?case by simp
next
  case (Cons x xs)
  have "filter (\<lambda>y. y \<notin> set xs \<and> y \<noteq> x) (first_seen ys)
          = filter (\<lambda>y. y \<notin> set (x # xs)) (first_seen ys)"
    by (rule filter_cong) auto
  with Cons show ?case by (simp add: removeAll_filter)
qed

lemma fill_map_keys:
  "map fst (fill_map cmds m)
     = map fst m @ filter (\<lambda>k. k \<notin> set (map fst m)) (first_seen (map name cmds))"
proof (induction cmds arbitrary: m)
  case Nil
  show ?case by simp
next
  case (Cons c cs)
  let ?m' = "Map_set (name c) c m"
  show ?case
  proof (cases "name c \<in> set (map fst m)")
    case True
    then have k: "map fst ?m' = map fst m" by (simp add: Map_set_keys)
    have "filter (\<lambda>k. k \<notin> set (map fst m) \<and> k \<noteq> name c) (first_seen (map name cs))
         = filter (\<lambda>k. k \<notin> set (map fst m)) (first_seen (map name cs))"
      using True by (intro filter_cong refl) (auto simp del: set_map)
    then show ?thesis
      using True by (simp add: Cons.IH k filter_removeAll)
  next
    case False
    then have k: "map fst ?m' = map fst m @ [name c]" by (simp add: Map_set_keys)
    have "filter (\<lambda>k. k \<notin> set (map fst m @ [name c])) (first_seen (map name cs))
         = filter (\<lambda>k. k \<notin> set (map fst m) \<and> k \<noteq> name c) (first_seen (map name cs))"
      by (intro filter_cong) auto
    then show ?thesis
      using False by (simp add: Cons.IH k filter_removeAll)
  qed
qed

lemma fill_map_lookup:
  "map_of (fill_map cmds m) k =
     (if filter (\<lambda>c. name c = k) cmds = [] then map_of m k
      else Some (last_named k cmds))"
  by (induction cmds arbitrary: m) (auto simp: Map_set_lookup last_named_def)

lemma distinct_keys_values:
  "distinct (map fst m) \<Longrightarrow> map snd m = map (\<lambda>k. the (map_of m k)) (map fst m)"
proof (induction m)
  case Nil
  show ?case by simp
next
  case (Cons p m)
  obtain a b where p: "p = (a, b)" by (cases p)
  from Cons.prems have a: "a \<notin> set (map fst m)" and d: "distinct (map fst m)"
    by (simp_all add: p)
  have "map (\<lambda>k. the (map_of ((a, b) # m) k)) (map fst m)
          = map (\<lambda>k. the (map_of m k)) (map fst m)"
    using a by (intro map_cong refl) auto
  then show ?case
    using Cons.IH [OF d] by (simp add: p)
qed

lemma named_nonempty: "k \<in> set (map name cmds) \<Longrightarrow> filter (\<lambda>c. name c = k) cmds \<noteq> []"
  by (induction cmds) auto

lemma last_named_name: "k \<in> set (map name cmds) \<Longrightarrow> name (last_named k cmds) = k"
  using last_in_set [OF named_nonempty, of k cmds] by (simp add: last_named_def)

lemma last_named_mem: "k \<in> set (map name cmds) \<Longrightarrow> last_named k cmds \<in> set cmds"
  using last_in_set [OF named_nonempty, of k cmds] by (simp add: last_named_def)

lemma fill_map_spec: "Map_values (fill_map cmds []) = spec_catalog cmds"
proof -
  let ?m = "fill_map cmds []"
  have keys: "map fst ?m = first_seen (map name cmds)"
    using fill_map_keys [of cmds "[]"] by simp
  then have "distinct (map fst ?m)" by simp
  then have "map snd ?m = map (\<lambda>k. the (map_of ?m k)) (first_seen (map name cmds))"
    using distinct_keys_values [of ?m] keys by simp
  also have "\<dots> = map (\<lambda>k. last_named k cmds) (first_seen (map name cmds))"
  proof (rule map_cong [OF refl])
    fix k assume "k \<in> set (first_seen (map name cmds))"
    then have "filter (\<lambda>c. name c = k) cmds \<noteq> []"
      using named_nonempty [of k cmds] by simp
    then show "the (map_of ?m k) = last_named k cmds"
      by (simp add: fill_map_lookup)
  qed
  finally show ?thesis by (simp add: Map_values_def spec_catalog_def)
qed

lemma collect_acc:
  "collect results (allCommands, dbg)
     = (allCommands @ fulfilled_outputs results,
        dbg @ concat (map (\<lambda>r. case r of Fulfilled _ \<Rightarrow> [] | Rejected e \<Rightarrow> [e]) results))"
proof (induction results arbitrary: allCommands dbg)
  case Nil
  show ?case by (simp add: fulfilled_outputs_def)
next
  case (Cons r rs)
  then show ?case by (cases r) (simp_all add: fulfilled_outputs_def)
qed

lemma spec_catalog_names: "map name (spec_catalog cmds) = first_seen (map name cmds)"
proof -
  have "map (\<lambda>k. name (last_named k cmds)) (first_seen (map name cmds))
          = map (\<lambda>k. k) (first_seen (map name cmds))"
    by (rule map_cong [OF refl]) (simp add: last_named_name)
  then show ?thesis
    by (simp add: spec_catalog_def comp_def)
qed


lemma spec_catalog_set: "set (spec_catalog cmds) \<subseteq> set cmds"
proof
  fix c assume "c \<in> set (spec_catalog cmds)"
  then obtain k where "k \<in> set (map name cmds)" and "c = last_named k cmds"
    unfolding spec_catalog_def by (metis (no_types, lifting) first_seen_set imageE list.set_map)
  then show "c \<in> set cmds" by (simp add: last_named_mem)
qed

lemma loadCommands_settled_unfold:
  "loadCommands_settled results svc rt =
     (svc\<lparr>commands := fresh rt\<rparr>,
      rt\<lparr>debug_out := snd (collect results ([], debug_out rt)),
         cells := (cells rt)(fresh rt \<mapsto>
            \<lparr>elems = Map_values (fill_map (fst (collect results ([], debug_out rt))) []),
             frozen = True\<rparr>),
         fresh := Suc (fresh rt)\<rparr>)"
  by (simp add: loadCommands_settled_def alloc_def Object_freeze_def Let_def split: prod.split)

lemma catalog_loadCommands_settled:
  "catalog (loadCommands_settled results svc rt) = spec_catalog (fulfilled_outputs results)"
  by (simp add: loadCommands_settled_unfold catalog_def collect_acc fill_map_spec)

lemma settle_loaders_Returns: "settle_loaders (map Returns results) = Inr results"
  by (induction results) simp_all

lemma settle_loaders_Throws:
  "settle_loaders (map Returns results @ Throws e # loaders) = Inl e"
  by (induction results) simp_all

text \<open>When every loader returns a promise the call is fulfilled and publishes.\<close>

lemma loadCommands_Returns:
  "loadCommands (map Returns results) svc rt = (Inr (), loadCommands_settled results svc rt)"
  by (simp add: loadCommands_def settle_loaders_Returns)

text \<open>
  When a loader's call throws, after loaders that returned promises, the call of the
  method is rejected with the thrown value and nothing is published.
\<close>

lemma loadCommands_Throws:
  "loadCommands (map Returns results @ Throws e # loaders) svc rt = (Inl e, (svc, rt))"
  by (simp add: loadCommands_def settle_loaders_Throws)

subsection \<open>Failure isolation\<close>

text \<open>
  Loaders that fail by rejecting are isolated: when every loader's call returns a
  promise, some or all of them rejected, \<^verbatim>\<open>loadCommands()\<close> is fulfilled and the
  catalog it publishes is the specification's de-duplicated merge of the outputs of
  exactly the fulfilled loaders, in registration order: every published command comes
  from a fulfilled loader, every name a fulfilled loader produced is published, once.
  If every loader is rejected the catalog is empty.
\<close>

lemma loadCommands_isolates_rejections:
  "fst (loadCommands (map Returns results) svc rt) = Inr ()
   \<and> catalog (snd (loadCommands (map Returns results) svc rt))
       = spec_catalog (fulfilled_outputs results)
   \<and> set (catalog (snd (loadCommands (map Returns results) svc rt)))
       \<subseteq> set (fulfilled_outputs results)
   \<and> name ` set (catalog (snd (loadCommands (map Returns results) svc rt)))
       = name ` set (fulfilled_outputs results)
   \<and> distinct (map name (catalog (snd (loadCommands (map Returns results) svc rt))))
   \<and> ((\<forall>r \<in> set results. is_rejected r)
         \<longrightarrow> catalog (snd (loadCommands (map Returns results) svc rt)) = [])"
proof -
  let ?all = "fulfilled_outputs results"
  have eq: "catalog (snd (loadCommands (map Returns results) svc rt)) = spec_catalog ?all"
    by (simp add: loadCommands_Returns catalog_loadCommands_settled)
  have ok: "fst (loadCommands (map Returns results) svc rt) = Inr ()"
    by (simp add: loadCommands_Returns)
  have names: "map name (spec_catalog ?all) = first_seen (map name ?all)"
    by (rule spec_catalog_names)
  have n: "name ` set (spec_catalog ?all) = name ` set ?all"
    using arg_cong [OF names, of set] by simp
  have d: "distinct (map name (spec_catalog ?all))"
    by (simp add: names)
  have e: "(\<forall>r \<in> set results. is_rejected r) \<longrightarrow> spec_catalog ?all = []"
  proof
    assume "\<forall>r \<in> set results. is_rejected r"
    then have "?all = []"
      by (induction results) (auto simp: fulfilled_outputs_def is_rejected_def split: settled.splits)
    then show "spec_catalog ?all = []" by (simp add: spec_catalog_def)
  qed
  show ?thesis
    unfolding eq using ok spec_catalog_set [of ?all] n d e by simp
qed

text \<open>
  Claim C3 says that for every list of loaders, some or all of which fail by rejecting
  or by throwing, \<^verbatim>\<open>loadCommands()\<close> resolves and publishes the merge of the fulfilled
  loaders' outputs. The code does otherwise for a loader whose \<^verbatim>\<open>loadCommands()\<close>
  throws: the loaders are called inside \<^verbatim>\<open>map\<close>, before \<^verbatim>\<open>Promise.allSettled\<close> is
  reached, so the thrown value rejects the whole call and nothing is published. With a
  first loader fulfilled with one command and a second loader that throws 7, on a new
  service, the call is rejected with 7 and the catalog stays empty, where the merge of
  the fulfilled outputs is that one command.
\<close>

theorem throwing_loader_rejects_loadCommands:
  "loadCommands [Returns (Fulfilled [cmd ''a'' 1]), Throws 7]
      (fst (new_CommandService rt0)) (snd (new_CommandService rt0))
     = (Inl 7, new_CommandService rt0)
   \<and> catalog (snd (loadCommands [Returns (Fulfilled [cmd ''a'' 1]), Throws 7]
         (fst (new_CommandService rt0)) (snd (new_CommandService rt0)))) = []
   \<and> spec_catalog (fulfilled_outputs [Fulfilled [cmd ''a'' 1], Rejected (7::nat)])
       = [cmd ''a'' 1]"
  by (simp add: loadCommands_def new_CommandService_def alloc_def catalog_def rt0_def
      spec_catalog_def fulfilled_outputs_def last_named_def)

subsection \<open>Override order\<close>

lemma last_named_append:
  "x \<in> set (map name c2) \<Longrightarrow> last_named x (c1 @ c2) = last_named x c2"
  using named_nonempty [of x c2] by (simp add: last_named_def)

lemma loadCommands_two_fulfilled:
  "loadCommands [Returns (Fulfilled c1), Returns (Fulfilled c2)] svc rt
     = (Inr (), loadCommands_settled [Fulfilled c1, Fulfilled c2] svc rt)"
  using loadCommands_Returns [of "[Fulfilled c1, Fulfilled c2]" svc rt] by simp

text \<open>
  Claim C4. Two loaders registered in the order \<open>[L1, L2]\<close> are fulfilled with \<open>c1\<close>
  and \<open>c2\<close>, and both lists have a command named \<open>x\<close>. The call is fulfilled. In the
  catalog the names are the names of \<open>c1 @ c2\<close> in first-seen order, every entry is the
  last command of \<open>c1 @ c2\<close> under its name, and \<open>x\<close> sits at the index it has among
  the distinct names of \<open>c1\<close>, with the (last) command of \<open>c2\<close> named \<open>x\<close> as its
  entry.
\<close>

theorem last_registration_wins_first_position:
  assumes x1: "x \<in> set (map name c1)" and x2: "x \<in> set (map name c2)"
  shows "fst (loadCommands [Returns (Fulfilled c1), Returns (Fulfilled c2)] svc rt) = Inr ()
       \<and> map name (catalog (snd (loadCommands [Returns (Fulfilled c1), Returns (Fulfilled c2)] svc rt)))
           = first_seen (map name (c1 @ c2))
       \<and> (\<forall>c \<in> set (catalog (snd (loadCommands [Returns (Fulfilled c1), Returns (Fulfilled c2)] svc rt))).
             c = last_named (name c) (c1 @ c2))
       \<and> (\<exists>i < length (first_seen (map name c1)).
             first_seen (map name c1) ! i = x
           \<and> i < length (catalog (snd (loadCommands [Returns (Fulfilled c1), Returns (Fulfilled c2)] svc rt)))
           \<and> catalog (snd (loadCommands [Returns (Fulfilled c1), Returns (Fulfilled c2)] svc rt)) ! i
               = last_named x c2)"
proof -
  let ?cat = "catalog (snd (loadCommands [Returns (Fulfilled c1), Returns (Fulfilled c2)] svc rt))"
  let ?ks1 = "first_seen (map name c1)"
  let ?ks = "first_seen (map name (c1 @ c2))"
  have ok: "fst (loadCommands [Returns (Fulfilled c1), Returns (Fulfilled c2)] svc rt) = Inr ()"
    by (simp add: loadCommands_two_fulfilled)
  have cat: "?cat = map (\<lambda>k. last_named k (c1 @ c2)) ?ks"
    by (simp add: loadCommands_two_fulfilled catalog_loadCommands_settled fulfilled_outputs_def
        spec_catalog_def)
  have names: "map name ?cat = ?ks"
    using spec_catalog_names [of "c1 @ c2"]
    by (simp add: loadCommands_two_fulfilled catalog_loadCommands_settled fulfilled_outputs_def)
  have vals: "\<forall>c \<in> set ?cat. c = last_named (name c) (c1 @ c2)"
  proof
    fix c assume "c \<in> set ?cat"
    then obtain k where k: "k \<in> set (map name (c1 @ c2))" and c: "c = last_named k (c1 @ c2)"
      unfolding cat by (metis (no_types, lifting) first_seen_set imageE list.set_map)
    from last_named_name [OF k] show "c = last_named (name c) (c1 @ c2)"
      by (simp add: c)
  qed
  have split: "?ks = ?ks1 @ filter (\<lambda>y. y \<notin> set (map name c1)) (first_seen (map name c2))"
    using first_seen_append [of "map name c1" "map name c2"] by simp
  from x1 have "x \<in> set ?ks1" by simp
  then obtain i where i: "i < length ?ks1" and xi: "?ks1 ! i = x"
    unfolding in_set_conv_nth by blast
  have len: "i < length ?ks"
    unfolding split using i by simp
  have ki: "?ks ! i = x"
    unfolding split using i xi by (simp add: nth_append)
  have "?cat ! i = last_named x (c1 @ c2)"
    using len ki by (simp add: cat)
  then have val: "?cat ! i = last_named x c2"
    using last_named_append [OF x2] by simp
  have "i < length ?cat"
    using len by (simp add: cat)
  with i xi val names vals ok show ?thesis by blast
qed

theorem last_registration_wins_first_position_witness:
  "lit ''x'' \<in> set (map name [cmd ''x'' 1, cmd ''y'' 2])
   \<and> lit ''x'' \<in> set (map name [cmd ''z'' 3, cmd ''x'' 4])
   \<and> catalog (snd (loadCommands
        [Returns (Fulfilled [cmd ''x'' 1, cmd ''y'' 2]), Returns (Fulfilled [cmd ''z'' 3, cmd ''x'' 4])]
        \<lparr>commands = 0\<rparr> rt0)) = [cmd ''x'' 4, cmd ''y'' 2, cmd ''z'' 3]
   \<and> map name (catalog (snd (loadCommands
        [Returns (Fulfilled [cmd ''x'' 1, cmd ''y'' 2]), Returns (Fulfilled [cmd ''z'' 3, cmd ''x'' 4])]
        \<lparr>commands = 0\<rparr> rt0))) = [lit ''x'', lit ''y'', lit ''z'']"
proof -
  have h1: "lit ''x'' \<in> set (map name [cmd ''x'' 1, cmd ''y'' 2])"
    by (simp add: cmd_def)
  have h2: "lit ''x'' \<in> set (map name [cmd ''z'' 3, cmd ''x'' 4])"
    by (simp add: cmd_def)
  have c: "catalog (snd (loadCommands
        [Returns (Fulfilled [cmd ''x'' 1, cmd ''y'' 2]), Returns (Fulfilled [cmd ''z'' 3, cmd ''x'' 4])]
        \<lparr>commands = 0\<rparr> rt0)) = [cmd ''x'' 4, cmd ''y'' 2, cmd ''z'' 3]"
    by (simp add: loadCommands_two_fulfilled loadCommands_settled_unfold catalog_def
        Map_values_def cmd_def lit_def)
  show ?thesis
    using h1 h2 c last_registration_wins_first_position [OF h1 h2, of "\<lparr>commands = 0\<rparr>" rt0]
    by (simp add: cmd_def lit_def)
qed

subsection \<open>Mutating the returned array\<close>

text \<open>
  After a fulfilled \<^verbatim>\<open>loadCommands()\<close> the array handed out is frozen: a push throws a
  \<^verbatim>\<open>TypeError\<close> and leaves the service and the store as they were.
\<close>

lemma push_after_load_throws:
  "push_on_getCommands v (snd (loadCommands (map Returns results) svc rt))
     = (Inl TypeError, snd (loadCommands (map Returns results) svc rt))"
  by (simp add: loadCommands_Returns push_on_getCommands_def getCommands_def
      loadCommands_settled_unfold Array_push_def)

text \<open>
  Claim C5 says that a push on the array returned by \<^verbatim>\<open>getCommands()\<close> raises an
  error in every state of the service, the initial one included, and leaves the catalog
  unchanged. In the initial state the code does otherwise: the array of the field
  initialiser is not frozen, so the push returns the new length 1 and the service's own
  catalog, empty before, holds the pushed element afterwards.
\<close>

theorem push_on_initial_catalog_succeeds:
  "fst (push_on_getCommands v (new_CommandService rt)) = Inr 1
   \<and> catalog (new_CommandService rt) = []
   \<and> catalog (snd (push_on_getCommands v (new_CommandService rt))) = [v]"
  by (simp add: push_on_getCommands_def getCommands_def new_CommandService_def alloc_def
      Array_push_def catalog_def)

subsection \<open>Replacement on reload\<close>




section \<open>Properties of the prompt runner\<close>

subsection \<open>Strings and sets\<close>

lemma join_sublist: "x \<in> set xs \<Longrightarrow> sublist x (join sep xs)"
proof (induction sep xs rule: join.induct)
  case (1 sep)
  then show ?case by simp
next
  case (2 sep y)
  then show ?case by simp
next
  case (3 sep y z zs)
  show ?case
  proof (cases "x = y")
    case True
    then show ?thesis by (simp add: sublist_append_rightI)
  next
    case False
    with 3 have "sublist x (join sep (z # zs))" by simp
    then obtain ps ss where "join sep (z # zs) = ps @ x @ ss"
      by (auto simp: sublist_def)
    then have eq: "join sep (y # z # zs) = (y @ sep @ ps) @ x @ ss" by simp
    show ?thesis unfolding eq by (rule sublist_appendI)
  qed
qed

lemma Set_add_all_set: "set (Set_add_all xs s) = set xs \<union> set s"
  by (induction xs arbitrary: s) auto

lemma Set_add_all_distinct: "distinct s \<Longrightarrow> distinct (Set_add_all xs s)"
  by (induction xs arbitrary: s) auto

lemma Array_from_Set_set [simp]: "set (Array_from_Set xs) = set xs"
  by (simp add: Array_from_Set_def Set_add_all_set)

lemma Array_from_Set_distinct [simp]: "distinct (Array_from_Set xs)"
  by (simp add: Array_from_Set_def Set_add_all_distinct)

lemmas io_defs = bind_def emit_def ret_def throw_def await_def await_loadCliConfig_def

subsection \<open>Explicit forms of the two branches\<close>

lemma generateGemini_interactive_unfold:
  "generateGemini_interactive w config prompt t =
     (let q = (if trim prompt \<noteq> [] then trim prompt
               else case getQuestion w config of None \<Rightarrow> [] | Some s \<Rightarrow> trim s);
          t1 = t @ [ConsoleLog [Str (msg_interactive_prompt q)]]
      in if q = [] then (Inl (Error msg_no_question), t)
         else (case runNonInteractive w t1 config q (random_id w) of
                 None \<Rightarrow> (Inr msg_interactive_done,
                            t1 @ [RunNonInteractive config q (random_id w) None])
               | Some x \<Rightarrow> (Inl (Thrown x),
                              t1 @ [RunNonInteractive config q (random_id w) (Some x)])))"
  by (simp add: generateGemini_interactive_def io_defs Let_def split: option.splits)

lemma applyNonInteractiveRestrictions_unfold:
  "applyNonInteractiveRestrictions w config extensions settings t =
     (if getApprovalMode w config \<noteq> ApprovalMode_YOLO w then
        (let m = restricted_merged w settings;
             sid = getSessionId w config;
             args = restricted_defaultCliArgs settings
         in case loadCliConfig w t m extensions sid args of
              Inl x \<Rightarrow> (Inl (Thrown x), t @ [LoadCliConfig m extensions sid args (Inl x)])
            | Inr c \<Rightarrow>
                (let t1 = t @ [LoadCliConfig m extensions sid args (Inr c)]
                 in case initialize w t1 c of
                      None \<Rightarrow> (Inr c, t1 @ [Initialize c None])
                    | Some x \<Rightarrow> (Inl (Thrown x), t1 @ [Initialize c (Some x)])))
      else
        (case initialize w t config of
           None \<Rightarrow> (Inr config, t @ [Initialize config None])
         | Some x \<Rightarrow> (Inl (Thrown x), t @ [Initialize config (Some x)])))"
  by (simp add: applyNonInteractiveRestrictions_def io_defs Let_def
      split: option.splits sum.splits)

lemma generateGemini_non_interactive_unfold:
  "generateGemini_non_interactive w config extensions settings prompt t =
     (case applyNonInteractiveRestrictions w config extensions settings t of
        (Inl f, t1) \<Rightarrow> (Inl f, t1)
      | (Inr finalConfig, t1) \<Rightarrow>
          (case runNonInteractive w t1 finalConfig prompt (random_id w) of
             None \<Rightarrow> (Inr msg_non_interactive_done,
                        t1 @ [RunNonInteractive finalConfig prompt (random_id w) None])
           | Some x \<Rightarrow> (Inl (Error (msg_generation_failed (String_of w x))),
                          t1 @ [RunNonInteractive finalConfig prompt (random_id w) (Some x)])))"
  by (simp add: generateGemini_non_interactive_def bind_def Let_def)

lemma interactive_keeps_refresh:
  "RefreshAuth c a r \<in> set (snd (generateGemini_interactive w config prompt t))
     \<longleftrightarrow> RefreshAuth c a r \<in> set t"
  by (simp add: generateGemini_interactive_unfold Let_def split: option.splits)

lemma non_interactive_keeps_refresh:
  "RefreshAuth c a r \<in> set (snd (generateGemini_non_interactive w config extensions settings prompt t))
     \<longleftrightarrow> RefreshAuth c a r \<in> set t"
  by (simp add: generateGemini_non_interactive_unfold applyNonInteractiveRestrictions_unfold
      Let_def split: option.splits sum.splits)

text \<open>The events of a call that has come as far as the branching.\<close>

lemma generateGemini_reaches_branch:
  assumes ev: "RefreshAuth config a None \<in> set (snd (generateGemini w prompt interactive []))"
  shows "\<exists>t0. generateGemini w prompt interactive [] =
                 (if interactive \<or> stdin_isTTY w
                  then generateGemini_interactive w config prompt t0
                  else generateGemini_non_interactive w config (extensions_loaded w)
                         (settings_loaded w) prompt t0)
              \<and> LoadCliConfig (merged (settings_loaded w)) (extensions_loaded w)
                   (lit ''session-id'') (defaultCliArgs (settings_loaded w)) (Inr config) \<in> set t0
              \<and> (\<forall>c p i r. RunNonInteractive c p i r \<notin> set t0)"
  using ev
  by (auto simp: generateGemini_def io_defs Let_def interactive_keeps_refresh
      non_interactive_keeps_refresh
      split: if_splits option.splits sum.splits)


subsection \<open>Concrete runs\<close>

lemmas world_defs = world_default_def world_yolo_def world_failing_run_def world_bad_settings_def
  world_no_key_def

lemmas eval_defs = generateGemini_def generateGemini_interactive_def
  generateGemini_non_interactive_def applyNonInteractiveRestrictions_def io_defs truthy_def
  Let_def trim_def is_js_space_def lit_def

lemma eval_default_non_interactive:
  "generateGemini world_default (lit ''hello'') False [] =
     (Inr msg_non_interactive_done,
      [LoadSettings, LoadExtensions, ReadEnv (lit ''GEMINI_API_KEY''),
       ConsoleLog [Str (lit ''authType:''), Auth USE_GEMINI],
       LoadCliConfig (merged (settings_loaded world_default)) [] (lit ''session-id'')
         (defaultCliArgs (settings_loaded world_default)) (Inr 4),
       ValidateAuthMethod USE_GEMINI None,
       Initialize 4 None,
       RefreshAuth 4 USE_GEMINI None,
       LoadCliConfig (restricted_merged world_default (settings_loaded world_default)) []
         (lit ''session-id'') (restricted_defaultCliArgs (settings_loaded world_default)) (Inr 8),
       Initialize 8 None,
       RunNonInteractive 8 (lit ''hello'') (lit ''8f3a'') None])"
  by (simp add: eval_defs world_defs)

lemma eval_yolo_non_interactive:
  "generateGemini world_yolo (lit ''hello'') False [] =
     (Inr msg_non_interactive_done,
      [LoadSettings, LoadExtensions, ReadEnv (lit ''GEMINI_API_KEY''),
       ConsoleLog [Str (lit ''authType:''), Auth USE_GEMINI],
       LoadCliConfig (merged (settings_loaded world_yolo)) [] (lit ''session-id'')
         (defaultCliArgs (settings_loaded world_yolo)) (Inr 4),
       ValidateAuthMethod USE_GEMINI None,
       Initialize 4 None,
       RefreshAuth 4 USE_GEMINI None,
       Initialize 4 None,
       RunNonInteractive 4 (lit ''hello'') (lit ''8f3a'') None])"
  by (simp add: eval_defs world_defs)

lemma eval_default_interactive:
  "generateGemini world_default (lit '' hello '') True [] =
     (Inr msg_interactive_done,
      [LoadSettings, LoadExtensions, ReadEnv (lit ''GEMINI_API_KEY''),
       ConsoleLog [Str (lit ''authType:''), Auth USE_GEMINI],
       LoadCliConfig (merged (settings_loaded world_default)) [] (lit ''session-id'')
         (defaultCliArgs (settings_loaded world_default)) (Inr 4),
       ValidateAuthMethod USE_GEMINI None,
       Initialize 4 None,
       RefreshAuth 4 USE_GEMINI None,
       ConsoleLog [Str (msg_interactive_prompt (lit ''hello''))],
       RunNonInteractive 4 (lit ''hello'') (lit ''8f3a'') None])"
  by (simp add: eval_defs world_defs)

lemma eval_failing_interactive:
  "generateGemini world_failing_run (lit ''hello'') True [] =
     (Inl (Thrown 7),
      [LoadSettings, LoadExtensions, ReadEnv (lit ''GEMINI_API_KEY''),
       ConsoleLog [Str (lit ''authType:''), Auth USE_GEMINI],
       LoadCliConfig (merged (settings_loaded world_failing_run)) [] (lit ''session-id'')
         (defaultCliArgs (settings_loaded world_failing_run)) (Inr 4),
       ValidateAuthMethod USE_GEMINI None,
       Initialize 4 None,
       RefreshAuth 4 USE_GEMINI None,
       ConsoleLog [Str (msg_interactive_prompt (lit ''hello''))],
       RunNonInteractive 4 (lit ''hello'') (lit ''8f3a'') (Some 7)])"
  by (simp add: eval_defs world_defs)

lemma eval_failing_non_interactive:
  "generateGemini world_failing_run (lit ''hello'') False [] =
     (Inl (Error (msg_generation_failed (lit ''Error: boom''))),
      [LoadSettings, LoadExtensions, ReadEnv (lit ''GEMINI_API_KEY''),
       ConsoleLog [Str (lit ''authType:''), Auth USE_GEMINI],
       LoadCliConfig (merged (settings_loaded world_failing_run)) [] (lit ''session-id'')
         (defaultCliArgs (settings_loaded world_failing_run)) (Inr 4),
       ValidateAuthMethod USE_GEMINI None,
       Initialize 4 None,
       RefreshAuth 4 USE_GEMINI None,
       LoadCliConfig (restricted_merged world_failing_run (settings_loaded world_failing_run)) []
         (lit ''session-id'') (restricted_defaultCliArgs (settings_loaded world_failing_run)) (Inr 8),
       Initialize 8 None,
       RunNonInteractive 8 (lit ''hello'') (lit ''8f3a'') (Some 7)])"
  by (simp add: eval_defs world_defs)

lemma eval_blank_interactive:
  "generateGemini world_default (lit ''  '') True [] =
     (Inl (Error msg_no_question),
      [LoadSettings, LoadExtensions, ReadEnv (lit ''GEMINI_API_KEY''),
       ConsoleLog [Str (lit ''authType:''), Auth USE_GEMINI],
       LoadCliConfig (merged (settings_loaded world_default)) [] (lit ''session-id'')
         (defaultCliArgs (settings_loaded world_default)) (Inr 4),
       ValidateAuthMethod USE_GEMINI None,
       Initialize 4 None,
       RefreshAuth 4 USE_GEMINI None])"
  by (simp add: eval_defs world_defs)


lemma run_implies_reached:
  assumes "RunNonInteractive c p i r \<in> set (snd (generateGemini w prompt interactive []))"
  shows "\<exists>config. RefreshAuth config USE_GEMINI None
           \<in> set (snd (generateGemini w prompt interactive []))"
  using assms
  by (auto simp: generateGemini_def io_defs Let_def interactive_keeps_refresh
      non_interactive_keeps_refresh
      split: if_splits option.splits sum.splits)

subsection \<open>Failures before the engine is touched\<close>

text \<open>
  Claim C7. When the settings come with at least one error, the call fails with an
  \<^verbatim>\<open>Error\<close> whose message is the lines \<^verbatim>\<open>Erreur dans <path>: <message>\<close> of all
  the errors, joined by newlines into one diagnostic (so each offending path with its
  message occurs in it), and nothing has happened but the loading of settings and
  extensions: the credential has not been read, no configuration built, no
  \<^verbatim>\<open>initialize\<close> or \<^verbatim>\<open>refreshAuth\<close> called.
\<close>

theorem settings_errors_abort_first:
  assumes "errors (settings_loaded w) \<noteq> []"
  shows "generateGemini w prompt interactive [] =
           (Inl (Error (join [0x000A] (map settings_error_line (errors (settings_loaded w))))),
            [LoadSettings, LoadExtensions])
       \<and> (\<forall>e \<in> set (errors (settings_loaded w)).
             sublist (lit ''Erreur dans '' @ path e @ lit '': '' @ message e)
               (join [0x000A] (map settings_error_line (errors (settings_loaded w)))))"
proof -
  have "\<forall>e \<in> set (errors (settings_loaded w)).
          sublist (settings_error_line e)
            (join [0x000A] (map settings_error_line (errors (settings_loaded w))))"
    by (simp add: join_sublist)
  then show ?thesis
    using assms by (simp add: generateGemini_def io_defs settings_error_line_def)
qed

theorem settings_errors_abort_first_witness:
  "errors (settings_loaded world_bad_settings) \<noteq> []
   \<and> generateGemini world_bad_settings (lit ''hello'') False [] =
       (Inl (Error (lit ''Erreur dans a.json: bad'' @ [0x000A] @ lit ''Erreur dans b.json: worse'')),
        [LoadSettings, LoadExtensions])"
  using settings_errors_abort_first [of world_bad_settings "lit ''hello''" False]
  by (simp add: world_defs settings_error_line_def lit_def)

text \<open>
  Claim C8. When the settings have no error and \<^verbatim>\<open>GEMINI_API_KEY\<close> is not set, the
  call fails with an \<^verbatim>\<open>Error\<close> whose message contains the settings file path
  \<^verbatim>\<open>USER_SETTINGS_PATH\<close> and the name of the variable; up to then only the settings and
  the extensions were loaded and the variable read, so no configuration was built and
  the engine was not initialised.
\<close>

theorem missing_credential_aborts:
  assumes "errors (settings_loaded w) = []" and "env_GEMINI_API_KEY w = None"
  shows "generateGemini w prompt interactive [] =
           (Inl (Error (msg_no_auth (USER_SETTINGS_PATH w))),
            [LoadSettings, LoadExtensions, ReadEnv (lit ''GEMINI_API_KEY'')])
       \<and> sublist (USER_SETTINGS_PATH w) (msg_no_auth (USER_SETTINGS_PATH w))
       \<and> sublist (lit ''GEMINI_API_KEY'') (msg_no_auth (USER_SETTINGS_PATH w))"
proof -
  let ?p = "USER_SETTINGS_PATH w"
  have "msg_no_auth ?p =
          (lit ''Aucune m'' @ [0x00E9] @ lit ''thode d'' @ [0x0027] @ lit ''auth. Configure '')
          @ ?p @ (lit '' ou d'' @ [0x00E9] @ lit ''finis GEMINI_API_KEY'')"
    by (simp add: msg_no_auth_def)
  then have a: "sublist ?p (msg_no_auth ?p)"
    by (metis sublist_appendI)
  have "msg_no_auth ?p =
          (lit ''Aucune m'' @ [0x00E9] @ lit ''thode d'' @ [0x0027] @ lit ''auth. Configure ''
           @ ?p @ lit '' ou d'' @ [0x00E9] @ lit ''finis '') @ lit ''GEMINI_API_KEY''"
    by (simp add: msg_no_auth_def lit_def)
  then have b: "sublist (lit ''GEMINI_API_KEY'') (msg_no_auth ?p)"
    by (metis sublist_append_leftI)
  show ?thesis
    using assms a b by (simp add: generateGemini_def io_defs truthy_def)
qed

theorem missing_credential_aborts_witness:
  "errors (settings_loaded world_no_key) = []
   \<and> env_GEMINI_API_KEY world_no_key = None
   \<and> generateGemini world_no_key (lit ''hello'') False [] =
       (Inl (Error (msg_no_auth (lit ''~/.gemini/settings.json''))),
        [LoadSettings, LoadExtensions, ReadEnv (lit ''GEMINI_API_KEY'')])"
  using missing_credential_aborts [of world_no_key "lit ''hello''" False]
  by (simp add: world_defs)

subsection \<open>The non-interactive branch\<close>

lemma restricted_merged_excludes:
  "\<exists>ex. excludeTools (restricted_merged w settings) = Some ex
       \<and> ShellTool_Name w \<in> set ex \<and> EditTool_Name w \<in> set ex \<and> WriteFileTool_Name w \<in> set ex
       \<and> distinct ex
       \<and> set ex = (case excludeTools (merged settings) of None \<Rightarrow> {} | Some ts \<Rightarrow> set ts)
                   \<union> {ShellTool_Name w, EditTool_Name w, WriteFileTool_Name w}"
  by (auto simp: restricted_merged_def newExcludeTools_def split: option.splits)

text \<open>
  Claim C1. A call takes the non-interactive branch: the interactive hint is false, no
  terminal is attached, and it has come past \<^verbatim>\<open>refreshAuth\<close> with the configuration
  \<open>config\<close> built first. Let \<open>c\<close> be a configuration passed to \<^verbatim>\<open>runNonInteractive\<close>.
  If the approval mode of \<open>config\<close> is not \<^verbatim>\<open>YOLO\<close>, then \<open>c\<close> is the (initialised)
  configuration that \<^verbatim>\<open>loadCliConfig\<close> built from settings whose \<^verbatim>\<open>excludeTools\<close> is
  a duplicate-free list holding exactly the settings' own exclusions and the names of
  the shell, edit and write-file tools, with arguments in which \<^verbatim>\<open>yolo\<close> is true.
  If the approval mode is \<^verbatim>\<open>YOLO\<close>, then \<open>c\<close> is \<open>config\<close> itself, built from the
  unchanged settings and initialised once more.
\<close>

theorem non_interactive_restrictions:
  assumes run: "generateGemini w prompt interactive [] = (res, tr)"
      and ni: "\<not> interactive" "\<not> stdin_isTTY w"
      and reached: "RefreshAuth config a None \<in> set tr"
      and passed: "RunNonInteractive c p i r \<in> set tr"
  shows "if getApprovalMode w config \<noteq> ApprovalMode_YOLO w
         then (\<exists>m args ex.
                 LoadCliConfig m (extensions_loaded w) (getSessionId w config) args (Inr c) \<in> set tr
               \<and> Initialize c None \<in> set tr
               \<and> excludeTools m = Some ex
               \<and> ShellTool_Name w \<in> set ex \<and> EditTool_Name w \<in> set ex
               \<and> WriteFileTool_Name w \<in> set ex
               \<and> distinct ex
               \<and> set ex = (case excludeTools (merged (settings_loaded w)) of
                             None \<Rightarrow> {} | Some ts \<Rightarrow> set ts)
                           \<union> {ShellTool_Name w, EditTool_Name w, WriteFileTool_Name w}
               \<and> model m = model (merged (settings_loaded w))
               \<and> yolo args)
         else c = config
              \<and> LoadCliConfig (merged (settings_loaded w)) (extensions_loaded w)
                   (lit ''session-id'') (defaultCliArgs (settings_loaded w)) (Inr config) \<in> set tr
              \<and> Initialize config None \<in> set tr"
proof -
  from reached run have "RefreshAuth config a None \<in> set (snd (generateGemini w prompt interactive []))"
    by simp
  from generateGemini_reaches_branch [OF this] ni run
  obtain t0 where
    eq: "generateGemini_non_interactive w config (extensions_loaded w) (settings_loaded w) prompt t0
           = (res, tr)"
    and built: "LoadCliConfig (merged (settings_loaded w)) (extensions_loaded w)
                  (lit ''session-id'') (defaultCliArgs (settings_loaded w)) (Inr config) \<in> set t0"
    and norun: "\<forall>c p i r. RunNonInteractive c p i r \<notin> set t0"
    by auto
  obtain ex where ex: "excludeTools (restricted_merged w (settings_loaded w)) = Some ex"
    "ShellTool_Name w \<in> set ex" "EditTool_Name w \<in> set ex" "WriteFileTool_Name w \<in> set ex"
    "distinct ex"
    "set ex = (case excludeTools (merged (settings_loaded w)) of None \<Rightarrow> {} | Some ts \<Rightarrow> set ts)
              \<union> {ShellTool_Name w, EditTool_Name w, WriteFileTool_Name w}"
    using restricted_merged_excludes [of w "settings_loaded w"] by blast
  have md: "model (restricted_merged w (settings_loaded w)) = model (merged (settings_loaded w))"
    by (simp add: restricted_merged_def)
  have yl: "yolo (restricted_defaultCliArgs (settings_loaded w))"
    by (simp add: restricted_defaultCliArgs_def)
  show ?thesis
  proof (cases "getApprovalMode w config = ApprovalMode_YOLO w")
    case True
    with eq passed norun built show ?thesis
      by (auto simp: generateGemini_non_interactive_unfold applyNonInteractiveRestrictions_unfold
          split: option.splits)
  next
    case False
    let ?m = "restricted_merged w (settings_loaded w)"
    let ?args = "restricted_defaultCliArgs (settings_loaded w)"
    from False eq passed norun
    have "LoadCliConfig ?m (extensions_loaded w) (getSessionId w config) ?args (Inr c) \<in> set tr
          \<and> Initialize c None \<in> set tr"
      by (auto simp: generateGemini_non_interactive_unfold applyNonInteractiveRestrictions_unfold
          Let_def split: option.splits sum.splits)
    with False ex md yl show ?thesis by auto
  qed
qed

theorem non_interactive_restrictions_witness:
  "\<not> stdin_isTTY world_default
   \<and> RefreshAuth 4 USE_GEMINI None \<in> set (snd (generateGemini world_default (lit ''hello'') False []))
   \<and> RunNonInteractive 8 (lit ''hello'') (lit ''8f3a'') None
        \<in> set (snd (generateGemini world_default (lit ''hello'') False []))
   \<and> getApprovalMode world_default 4 \<noteq> ApprovalMode_YOLO world_default
   \<and> (\<exists>m args ex.
          LoadCliConfig m [] (lit ''session-id'') args (Inr 8)
            \<in> set (snd (generateGemini world_default (lit ''hello'') False []))
        \<and> excludeTools m = Some ex
        \<and> lit ''run_shell_command'' \<in> set ex \<and> lit ''replace'' \<in> set ex
        \<and> lit ''write_file'' \<in> set ex
        \<and> yolo args)
   \<and> RunNonInteractive 4 (lit ''hello'') (lit ''8f3a'') None
        \<in> set (snd (generateGemini world_yolo (lit ''hello'') False []))
   \<and> getApprovalMode world_yolo 4 = ApprovalMode_YOLO world_yolo"
proof -
  let ?run = "generateGemini world_default (lit ''hello'') False []"
  have run: "?run = (fst ?run, snd ?run)" by simp
  have tty: "\<not> stdin_isTTY world_default" by (simp add: world_defs)
  have reached: "RefreshAuth 4 USE_GEMINI None \<in> set (snd ?run)"
    by (simp add: eval_default_non_interactive)
  have passed: "RunNonInteractive 8 (lit ''hello'') (lit ''8f3a'') None \<in> set (snd ?run)"
    by (simp add: eval_default_non_interactive)
  have mode: "getApprovalMode world_default 4 \<noteq> ApprovalMode_YOLO world_default"
    by (simp add: world_defs lit_def)
  have ext: "extensions_loaded world_default = []" "getSessionId world_default 4 = lit ''session-id''"
    "ShellTool_Name world_default = lit ''run_shell_command''"
    "EditTool_Name world_default = lit ''replace''"
    "WriteFileTool_Name world_default = lit ''write_file''"
    by (simp_all add: world_defs)
  have concl: "\<exists>m args ex.
          LoadCliConfig m [] (lit ''session-id'') args (Inr 8) \<in> set (snd ?run)
        \<and> excludeTools m = Some ex
        \<and> lit ''run_shell_command'' \<in> set ex \<and> lit ''replace'' \<in> set ex
        \<and> lit ''write_file'' \<in> set ex
        \<and> yolo args"
    using non_interactive_restrictions [OF run _ tty reached passed] mode
    unfolding ext by (simp only: if_True simp_thms) blast
  have y1: "RunNonInteractive 4 (lit ''hello'') (lit ''8f3a'') None
        \<in> set (snd (generateGemini world_yolo (lit ''hello'') False []))"
    by (simp add: eval_yolo_non_interactive)
  have y2: "getApprovalMode world_yolo 4 = ApprovalMode_YOLO world_yolo" by (simp add: world_defs)
  from tty reached passed mode concl y1 y2 show ?thesis by blast
qed

subsection \<open>The interactive branch\<close>

text \<open>
  Claim C2, amended. A call with the interactive hint true or a terminal attached has
  come past \<^verbatim>\<open>refreshAuth\<close> with the configuration \<open>config\<close>. Its question \<open>q\<close>
  is the trimmed prompt or, when that is empty, the trimmed question of the
  configuration. If there is no non-empty question the call fails with the
  \<^verbatim>\<open>Error\<close> "Aucune question fournie." and the engine is not run. Otherwise the call
  runs the engine once, through \<^verbatim>\<open>runNonInteractive\<close> (the source has no other entry
  point) with \<open>config\<close>, \<open>q\<close> and the fresh identifier, as its last action; it returns
  the fixed confirmation when that run succeeds, and fails with what the run threw when
  it does not.
\<close>

theorem interactive_branch_runs_question:
  assumes run: "generateGemini w prompt interactive [] = (res, tr)"
      and inter: "interactive \<or> stdin_isTTY w"
      and reached: "RefreshAuth config a None \<in> set tr"
  shows "let q = (if trim prompt \<noteq> [] then trim prompt
                  else case getQuestion w config of None \<Rightarrow> [] | Some s \<Rightarrow> trim s)
         in if q = []
            then res = Inl (Error msg_no_question)
                 \<and> (\<forall>c p i r. RunNonInteractive c p i r \<notin> set tr)
            else (\<exists>r. last tr = RunNonInteractive config q (random_id w) r
                     \<and> (\<forall>c p i r'. RunNonInteractive c p i r' \<in> set tr
                           \<longrightarrow> c = config \<and> p = q \<and> i = random_id w \<and> r' = r)
                     \<and> res = (case r of None \<Rightarrow> Inr msg_interactive_done
                                       | Some x \<Rightarrow> Inl (Thrown x)))"
proof -
  define q where "q = (if trim prompt \<noteq> [] then trim prompt
                       else case getQuestion w config of None \<Rightarrow> [] | Some s \<Rightarrow> trim s)"
  from reached run have "RefreshAuth config a None \<in> set (snd (generateGemini w prompt interactive []))"
    by simp
  from generateGemini_reaches_branch [OF this] inter run
  obtain t0 where
    eq: "generateGemini_interactive w config prompt t0 = (res, tr)"
    and norun: "\<forall>c p i r. RunNonInteractive c p i r \<notin> set t0"
    by auto
  let ?t1 = "t0 @ [ConsoleLog [Str (msg_interactive_prompt q)]]"
  have form: "(res, tr) =
     (if q = [] then (Inl (Error msg_no_question), t0)
      else (case runNonInteractive w ?t1 config q (random_id w) of
              None \<Rightarrow> (Inr msg_interactive_done,
                         ?t1 @ [RunNonInteractive config q (random_id w) None])
            | Some x \<Rightarrow> (Inl (Thrown x),
                           ?t1 @ [RunNonInteractive config q (random_id w) (Some x)])))"
    using eq unfolding generateGemini_interactive_unfold q_def Let_def by simp
  have "if q = []
        then res = Inl (Error msg_no_question)
             \<and> (\<forall>c p i r. RunNonInteractive c p i r \<notin> set tr)
        else (\<exists>r. last tr = RunNonInteractive config q (random_id w) r
                 \<and> (\<forall>c p i r'. RunNonInteractive c p i r' \<in> set tr
                       \<longrightarrow> c = config \<and> p = q \<and> i = random_id w \<and> r' = r)
                 \<and> res = (case r of None \<Rightarrow> Inr msg_interactive_done
                                   | Some x \<Rightarrow> Inl (Thrown x)))"
  proof (cases "q = []")
    case True
    with form have "res = Inl (Error msg_no_question)" "tr = t0" by simp_all
    with norun True show ?thesis by simp
  next
    case False
    show ?thesis
    proof (cases "runNonInteractive w ?t1 config q (random_id w)")
      case None
      with form False have r: "res = Inr msg_interactive_done"
        and t: "tr = ?t1 @ [RunNonInteractive config q (random_id w) None]"
        by simp_all
      have "last tr = RunNonInteractive config q (random_id w) None"
        by (simp add: t)
      moreover have "\<forall>c p i r'. RunNonInteractive c p i r' \<in> set tr
                       \<longrightarrow> c = config \<and> p = q \<and> i = random_id w \<and> r' = None"
        using norun by (simp add: t)
      ultimately show ?thesis using False r by auto
    next
      case (Some x)
      with form False have r: "res = Inl (Thrown x)"
        and t: "tr = ?t1 @ [RunNonInteractive config q (random_id w) (Some x)]"
        by simp_all
      have "last tr = RunNonInteractive config q (random_id w) (Some x)"
        by (simp add: t)
      moreover have "\<forall>c p i r'. RunNonInteractive c p i r' \<in> set tr
                       \<longrightarrow> c = config \<and> p = q \<and> i = random_id w \<and> r' = Some x"
        using norun by (simp add: t)
      ultimately show ?thesis using False r by auto
    qed
  qed
  then show ?thesis unfolding q_def Let_def .
qed

theorem interactive_branch_runs_question_witness:
  "RefreshAuth 4 USE_GEMINI None
        \<in> set (snd (generateGemini world_default (lit '' hello '') True []))
   \<and> trim (lit '' hello '') = lit ''hello''
   \<and> last (snd (generateGemini world_default (lit '' hello '') True []))
        = RunNonInteractive 4 (lit ''hello'') (lit ''8f3a'') None
   \<and> fst (generateGemini world_default (lit '' hello '') True []) = Inr msg_interactive_done
   \<and> RefreshAuth 4 USE_GEMINI None
        \<in> set (snd (generateGemini world_default (lit ''  '') True []))
   \<and> trim (lit ''  '') = []
   \<and> getQuestion world_default 4 = None
   \<and> fst (generateGemini world_default (lit ''  '') True []) = Inl (Error msg_no_question)"
proof -
  let ?run = "generateGemini world_default (lit '' hello '') True []"
  let ?blank = "generateGemini world_default (lit ''  '') True []"
  have run: "?run = (fst ?run, snd ?run)" and blank: "?blank = (fst ?blank, snd ?blank)"
    by simp_all
  have inter: "True \<or> stdin_isTTY world_default" by simp
  have r1: "RefreshAuth 4 USE_GEMINI None \<in> set (snd ?run)"
    by (simp add: eval_default_interactive)
  have r2: "RefreshAuth 4 USE_GEMINI None \<in> set (snd ?blank)"
    by (simp add: eval_blank_interactive)
  have t1: "trim (lit '' hello '') = lit ''hello''"
    by (simp add: trim_def is_js_space_def lit_def)
  have t2: "trim (lit ''  '') = []"
    by (simp add: trim_def is_js_space_def lit_def)
  have ne: "lit ''hello'' \<noteq> []" by (simp add: lit_def)
  have q: "getQuestion world_default 4 = None" "random_id world_default = lit ''8f3a''"
    by (simp_all add: world_defs)
  have l: "last (snd ?run) = RunNonInteractive 4 (lit ''hello'') (lit ''8f3a'') None"
    by (simp add: eval_default_interactive)
  have a: "fst ?run = Inr msg_interactive_done"
    using interactive_branch_runs_question [OF run inter r1] l
    by (simp add: t1 ne q Let_def)
  have b: "fst ?blank = Inl (Error msg_no_question)"
    using interactive_branch_runs_question [OF blank inter r2]
    by (simp add: t2 q Let_def)
  from r1 r2 t1 t2 q l a b show ?thesis by simp
qed

text \<open>
  Claim C2 as stated does not hold: with a non-empty question and an engine whose run
  fails, the call does not return the confirmation string but fails with the value the
  run threw; and the run it dispatches to is \<^verbatim>\<open>runNonInteractive\<close>, the entry point of
  the non-interactive branch.
\<close>

theorem interactive_run_failure_counterexample:
  "trim (lit ''hello'') = lit ''hello''
   \<and> lit ''hello'' \<noteq> []
   \<and> generateGemini world_failing_run (lit ''hello'') True [] =
       (Inl (Thrown 7),
        [LoadSettings, LoadExtensions, ReadEnv (lit ''GEMINI_API_KEY''),
         ConsoleLog [Str (lit ''authType:''), Auth USE_GEMINI],
         LoadCliConfig (merged (settings_loaded world_failing_run)) [] (lit ''session-id'')
           (defaultCliArgs (settings_loaded world_failing_run)) (Inr 4),
         ValidateAuthMethod USE_GEMINI None,
         Initialize 4 None,
         RefreshAuth 4 USE_GEMINI None,
         ConsoleLog [Str (msg_interactive_prompt (lit ''hello''))],
         RunNonInteractive 4 (lit ''hello'') (lit ''8f3a'') (Some 7)])
   \<and> fst (generateGemini world_failing_run (lit ''hello'') True []) \<noteq> Inr msg_interactive_done"
proof -
  have t: "trim (lit ''hello'') = lit ''hello''" "lit ''hello'' \<noteq> []"
    by (simp_all add: trim_def is_js_space_def lit_def)
  show ?thesis
    unfolding eval_failing_interactive using t by simp
qed

subsection \<open>The fallback model\<close>

text \<open>
  Claim C9 says that, with no model in the settings, the first configuration and the
  restricted configuration default to the same fallback model. The code does otherwise:
  in a non-interactive call with no model configured and a first configuration that is
  not in \<^verbatim>\<open>YOLO\<close> mode, \<^verbatim>\<open>loadCliConfig\<close> is asked for "gemini-2.5-pro" the first
  time and for "gemini-1.5-flash" in the restriction pass.
\<close>

theorem fallback_models_differ:
  "model (merged (settings_loaded world_default)) = None
   \<and> requested_models (snd (generateGemini world_default (lit ''hello'') False []))
       = [lit ''gemini-2.5-pro'', lit ''gemini-1.5-flash'']
   \<and> lit ''gemini-2.5-pro'' \<noteq> lit ''gemini-1.5-flash''"
proof -
  have m: "model (merged (settings_loaded world_default)) = None"
    by (simp add: world_defs)
  have d: "lit ''gemini-2.5-pro'' \<noteq> lit ''gemini-1.5-flash''"
    by (simp add: lit_def)
  have "requested_models (snd (generateGemini world_default (lit ''hello'') False []))
          = [model_arg (defaultCliArgs (settings_loaded world_default)),
             model_arg (restricted_defaultCliArgs (settings_loaded world_default))]"
    unfolding eval_default_non_interactive by simp
  then have "requested_models (snd (generateGemini world_default (lit ''hello'') False []))
          = [lit ''gemini-2.5-pro'', lit ''gemini-1.5-flash'']"
    by (simp add: defaultCliArgs_def restricted_defaultCliArgs_def js_or_def m)
  with m d show ?thesis by simp
qed

subsection \<open>Failures of the engine's run\<close>

text \<open>
  Claim C10. When the engine's run fails with a value \<open>x\<close>, a call on the interactive
  branch (hint true or terminal attached) fails with \<open>x\<close> itself, unwrapped; only a call
  on the non-interactive branch fails with the \<^verbatim>\<open>Error\<close> whose message is
  "Echec de generation Gemini : " (with its accents) followed by the string of \<open>x\<close>.
\<close>

theorem run_failure_propagation:
  assumes run: "generateGemini w prompt interactive [] = (res, tr)"
      and failed: "RunNonInteractive c p i (Some x) \<in> set tr"
  shows "res = (if interactive \<or> stdin_isTTY w then Inl (Thrown x)
                else Inl (Error (msg_generation_failed (String_of w x))))"
proof -
  from failed run
  have f: "RunNonInteractive c p i (Some x) \<in> set (snd (generateGemini w prompt interactive []))"
    by simp
  from run_implies_reached [OF f] obtain config where
    "RefreshAuth config USE_GEMINI None \<in> set (snd (generateGemini w prompt interactive []))" ..
  from generateGemini_reaches_branch [OF this] run
  obtain t0 where
    eq: "(res, tr) = (if interactive \<or> stdin_isTTY w
                      then generateGemini_interactive w config prompt t0
                      else generateGemini_non_interactive w config (extensions_loaded w)
                             (settings_loaded w) prompt t0)"
    and norun: "\<forall>c p i r. RunNonInteractive c p i r \<notin> set t0"
    by auto
  show ?thesis
  proof (cases "interactive \<or> stdin_isTTY w")
    case True
    with eq have "generateGemini_interactive w config prompt t0 = (res, tr)" by simp
    with norun failed True show ?thesis
      by (auto simp: generateGemini_interactive_unfold Let_def split: if_splits option.splits)
  next
    case False
    with eq have "generateGemini_non_interactive w config (extensions_loaded w)
                    (settings_loaded w) prompt t0 = (res, tr)" by simp
    with norun failed False show ?thesis
      by (auto simp: generateGemini_non_interactive_unfold applyNonInteractiveRestrictions_unfold
          Let_def split: if_splits option.splits sum.splits)
  qed
qed

theorem run_failure_propagation_witness:
  "RunNonInteractive 4 (lit ''hello'') (lit ''8f3a'') (Some 7)
     \<in> set (snd (generateGemini world_failing_run (lit ''hello'') True []))
   \<and> fst (generateGemini world_failing_run (lit ''hello'') True []) = Inl (Thrown 7)
   \<and> RunNonInteractive 8 (lit ''hello'') (lit ''8f3a'') (Some 7)
     \<in> set (snd (generateGemini world_failing_run (lit ''hello'') False []))
   \<and> fst (generateGemini world_failing_run (lit ''hello'') False [])
       = Inl (Error (msg_generation_failed (lit ''Error: boom'')))"
proof -
  let ?i = "generateGemini world_failing_run (lit ''hello'') True []"
  let ?n = "generateGemini world_failing_run (lit ''hello'') False []"
  have i: "?i = (fst ?i, snd ?i)" and n: "?n = (fst ?n, snd ?n)" by simp_all
  have fi: "RunNonInteractive 4 (lit ''hello'') (lit ''8f3a'') (Some 7) \<in> set (snd ?i)"
    by (simp add: eval_failing_interactive)
  have fn: "RunNonInteractive 8 (lit ''hello'') (lit ''8f3a'') (Some 7) \<in> set (snd ?n)"
    by (simp add: eval_failing_non_interactive)
  have w: "\<not> stdin_isTTY world_failing_run" "String_of world_failing_run 7 = lit ''Error: boom''"
    by (simp_all add: world_defs)
  have a: "fst ?i = Inl (Thrown 7)"
    using run_failure_propagation [OF i fi] by simp
  have b: "fst ?n = Inl (Error (msg_generation_failed (lit ''Error: boom'')))"
    using run_failure_propagation [OF n fn] w by simp
  from fi fn a b show ?thesis by simp
qed

end
